theory Spec2Isabelle
  imports Main "HOL-Library.Sublist"
begin

section \<open>The scheduler base class of nova/scheduler/driver.py\<close>

text \<open>
  The module holds one class, \<open>Scheduler\<close>, with the liveness test \<open>service_is_up\<close>,
  the host filter \<open>hosts_up\<close>, the live-migration entry point
  \<open>schedule_live_migration\<close> and the capacity test \<open>has_enough_resource\<close>.
  Everything it knows about the cluster it reads through \<open>nova.db\<close>; the two
  mutations it requests (\<open>instance_set_state\<close>, \<open>volume_update\<close>) go there as well.
\<close>

subsection \<open>Values, exceptions and records\<close>

text \<open>
  Python values that end up as arguments of a \<open>%\<close>-formatted message: strings and
  (unbounded) integers.
\<close>

datatype pyval = PyStr string | PyInt int

text \<open>
  The kinds of record a lookup of \<open>nova.db\<close> can miss. \<open>exception.NotFound\<close> is one
  class; the kind and the key say which lookup raised it.
\<close>

datatype entity = InstanceEntity | HostEntity | VolumeEntity

text \<open>
  The exceptions that can leave the methods of \<open>Scheduler\<close>. A message built with
  \<open>msg % args\<close> is kept as the template \<open>msg\<close> and the list of its arguments.
  \<open>TransportError\<close> stands for an exception of \<open>rpc.call\<close> that is not an
  \<open>rpc.RemoteError\<close> (the transport failed) and that no handler of the module catches;
  \<open>NameError\<close> carries the unbound name; \<open>IndexError\<close> is what \<open>service[0]\<close> raises on an
  empty list.
\<close>

datatype exn =
    NotFound entity pyval
  | Invalid string "pyval list"
  | NotEmpty string "pyval list"
  | TransportError string
  | NameError string
  | IndexError

fun is_NotFound :: "exn \<Rightarrow> bool" where
  "is_NotFound (NotFound k key) = True"
| "is_NotFound e = False"

text \<open>
  Modelled from the spec: the constants of \<open>nova.compute.power_state\<close>, which is not
  part of the source at hand. The spec gives the instance state as an enumeration
  (RUNNING, PAUSED, ...).
\<close>

datatype power_state = NOSTATE | RUNNING | BLOCKED | PAUSED | SHUTDOWN | SHUTOFF | CRASHED

text \<open>
  Timestamps are naive UTC \<open>datetime\<close> values; they are counted here in microseconds
  (the resolution of \<open>datetime\<close>) from a fixed origin, so that differences are
  \<open>timedelta\<close> values in microseconds.
\<close>

type_synonym datetime = int
type_synonym timedelta = int

definition timedelta_seconds :: "int \<Rightarrow> timedelta" where
  "timedelta_seconds s = s * 1000000"

text \<open>A row of the services table. \<open>updated_at\<close> is \<open>None\<close> until the first update.\<close>

record service =
  service_host :: string
  service_topic :: string
  service_updated_at :: "datetime option"
  service_created_at :: datetime

text \<open>
  A row of the hosts table. \<open>cpu_info\<close> is \<open>Some xml\<close> when the stored value is a
  \<open>str\<close>, and \<open>None\<close> for any value of another type (such as Python's \<open>None\<close>).
\<close>

record host =
  host_name :: string
  host_vcpus :: int
  host_memory_mb :: int
  host_local_gb :: int
  host_hypervisor_type :: string
  host_hypervisor_version :: int
  host_cpu_info :: "string option"

record inst =
  inst_id :: int
  inst_hostname :: string
  inst_host :: string
  inst_vcpus :: int
  inst_memory_mb :: int
  inst_local_gb :: int
  inst_state :: power_state
  inst_state_description :: string
  inst_launched_on :: string

record volume =
  vol_id :: int
  vol_instance_id :: int
  vol_status :: string

text \<open>The registry behind \<open>nova.db\<close>: four tables, each a list of rows in registry order.\<close>

record db =
  services :: "service list"
  hosts :: "host list"
  instances :: "inst list"
  volumes :: "volume list"

text \<open>
  How \<open>rpc.call\<close> can fail: with \<open>rpc.RemoteError\<close> (the remote side raised) or with an
  exception of another class (the transport failed).
\<close>

datatype rpc_failure = RemoteFailure string | TransportFailure string

text \<open>
  What a request reads besides the registry: the clock (\<open>datetime.datetime.utcnow()\<close>),
  the flags \<open>service_down_time\<close> and \<open>compute_topic\<close>, and the answer of \<open>rpc.call\<close>
  to a message sent to a queue (queue, method, the \<open>xml\<close> argument).
\<close>

record env =
  utcnow :: datetime
  service_down_time :: int
  compute_topic :: string
  rpc_call :: "string \<Rightarrow> string \<Rightarrow> string \<Rightarrow> rpc_failure + unit"

subsection \<open>The interface of nova.db\<close>

text \<open>
  Modelled from the spec: \<open>db.service_get_all_by_topic\<close> is not part of the source at
  hand. ServiceRegistry.listByTopic(topic) returns the service records of the topic.
\<close>

definition service_get_all_by_topic :: "db \<Rightarrow> string \<Rightarrow> service list" where
  "service_get_all_by_topic d topic = [s \<leftarrow> services d. service_topic s = topic]"

text \<open>
  Modelled from the spec: \<open>db.instance_get\<close> is not part of the source at hand.
  InstanceRegistry.get(id) returns the instance and fails InstanceNotFound when it is
  absent.
\<close>

definition instance_get :: "db \<Rightarrow> int \<Rightarrow> exn + inst" where
  "instance_get d instance_id =
     (case find (\<lambda>i. inst_id i = instance_id) (instances d) of
        None \<Rightarrow> Inl (NotFound InstanceEntity (PyInt instance_id))
      | Some i \<Rightarrow> Inr i)"

text \<open>
  Modelled from the spec: \<open>db.instance_get_all_by_host\<close> is not part of the source at
  hand. InstanceRegistry.listByHost(host) returns the instances currently placed on the
  host.
\<close>

definition instance_get_all_by_host :: "db \<Rightarrow> string \<Rightarrow> inst list" where
  "instance_get_all_by_host d h = [i \<leftarrow> instances d. inst_host i = h]"

text \<open>
  Modelled from the spec: \<open>db.instance_set_state\<close> is not part of the source at hand.
  InstanceRegistry.setState(id, state, description) stores the state and its description
  in the instance and fails InstanceNotFound when the instance is absent.
\<close>

definition instance_set_state :: "db \<Rightarrow> int \<Rightarrow> power_state \<Rightarrow> string \<Rightarrow> exn + db" where
  "instance_set_state d instance_id st description =
     (if instance_id \<in> set (map inst_id (instances d))
      then Inr (d\<lparr>instances :=
                   map (\<lambda>i. if inst_id i = instance_id
                            then i\<lparr>inst_state := st, inst_state_description := description\<rparr>
                            else i) (instances d)\<rparr>)
      else Inl (NotFound InstanceEntity (PyInt instance_id)))"

text \<open>
  Modelled from the spec: \<open>db.host_get_by_name\<close> is not part of the source at hand.
  HostRegistry.getByName(name) returns the host and fails HostNotFound when it is absent.
\<close>

definition host_get_by_name :: "db \<Rightarrow> string \<Rightarrow> exn + host" where
  "host_get_by_name d name =
     (case find (\<lambda>h. host_name h = name) (hosts d) of
        None \<Rightarrow> Inl (NotFound HostEntity (PyStr name))
      | Some h \<Rightarrow> Inr h)"

text \<open>
  Modelled from the spec: \<open>db.volume_get_all_by_instance\<close> is not part of the source at
  hand. VolumeRegistry.listByInstance(id) returns the volumes attached to the instance.
\<close>

definition volume_get_all_by_instance :: "db \<Rightarrow> int \<Rightarrow> exn + volume list" where
  "volume_get_all_by_instance d instance_id =
     Inr [v \<leftarrow> volumes d. vol_instance_id v = instance_id]"

text \<open>
  Modelled from the spec: \<open>db.volume_update\<close> is not part of the source at hand.
  VolumeRegistry.update(id, fields) stores the given fields in the volume and fails
  VolumeNotFound when the volume is absent. Of the fields only \<open>status\<close> is held in the
  rows of this development.
\<close>

definition volume_set_fields :: "(string \<times> string) list \<Rightarrow> volume \<Rightarrow> volume" where
  "volume_set_fields vals v =
     (case map_of vals ''status'' of
        None \<Rightarrow> v
      | Some s \<Rightarrow> v\<lparr>vol_status := s\<rparr>)"

definition volume_update :: "db \<Rightarrow> int \<Rightarrow> (string \<times> string) list \<Rightarrow> exn + db" where
  "volume_update d volume_id vals =
     (if volume_id \<in> set (map vol_id (volumes d))
      then Inr (d\<lparr>volumes :=
                   map (\<lambda>v. if vol_id v = volume_id then volume_set_fields vals v else v)
                       (volumes d)\<rparr>)
      else Inl (NotFound VolumeEntity (PyInt volume_id)))"

text \<open>
  Modelled from the spec: \<open>db.queue_get_for\<close> is not part of the source at hand. It
  names the destination queue of a topic on a host.
\<close>

definition queue_get_for :: "string \<Rightarrow> string \<Rightarrow> string" where
  "queue_get_for topic h = topic @ ''.'' @ h"

subsection \<open>Liveness of a service and the hosts that are up\<close>

text \<open>
  \<open>service['updated_at'] or service['created_at']\<close>: a \<open>datetime\<close> is always true, so
  the \<open>or\<close> takes \<open>updated_at\<close> unless it is \<open>None\<close>. The clock is read once for a
  request: every call of \<open>service_is_up\<close> within it sees the same \<open>utcnow\<close>.
\<close>

definition last_heartbeat :: "service \<Rightarrow> datetime" where
  "last_heartbeat s =
     (case service_updated_at s of
        Some u \<Rightarrow> u
      | None \<Rightarrow> service_created_at s)"

definition service_is_up :: "env \<Rightarrow> service \<Rightarrow> bool" where
  "service_is_up e s =
     (let elapsed = utcnow e - last_heartbeat s
      in elapsed < timedelta_seconds (service_down_time e))"

definition hosts_up :: "env \<Rightarrow> db \<Rightarrow> string \<Rightarrow> string list" where
  "hosts_up e d topic =
     (let svcs = service_get_all_by_topic d topic
      in [service_host s. s \<leftarrow> svcs, service_is_up e s])"

subsection \<open>The capacity of the destination\<close>

text \<open>
  The loop of \<open>has_enough_resource\<close> over the instances placed on the destination: each
  one is taken off the three running totals.
\<close>

fun subtract_instances :: "int \<times> int \<times> int \<Rightarrow> inst list \<Rightarrow> int \<times> int \<times> int" where
  "subtract_instances (total_cpu, total_mem, total_hdd) [] = (total_cpu, total_mem, total_hdd)"
| "subtract_instances (total_cpu, total_mem, total_hdd) (i_ref # instances_ref) =
     subtract_instances
       (total_cpu - inst_vcpus i_ref, total_mem - inst_memory_mb i_ref,
        total_hdd - inst_local_gb i_ref)
       instances_ref"

definition has_enough_resource :: "db \<Rightarrow> int \<Rightarrow> string \<Rightarrow> exn + unit" where
  "has_enough_resource d instance_id dest =
     (case instance_get d instance_id of
        Inl e \<Rightarrow> Inl e
      | Inr instance_ref \<Rightarrow>
          let ec2_id = inst_hostname instance_ref;
              vcpus = inst_vcpus instance_ref;
              mem = inst_memory_mb instance_ref;
              hdd = inst_local_gb instance_ref
          in (case host_get_by_name d dest of
                Inl e \<Rightarrow> Inl e
              | Inr host_ref \<Rightarrow>
                  (case subtract_instances
                          (host_vcpus host_ref, host_memory_mb host_ref, host_local_gb host_ref)
                          (instance_get_all_by_host d dest) of
                     (total_cpu, total_mem, total_hdd) \<Rightarrow>
                       if total_cpu \<le> vcpus \<or> total_mem \<le> mem \<or> total_hdd \<le> hdd
                       then Inl (NotEmpty ''%s doesnt have enough resource for %s''
                                   [PyStr dest, PyStr ec2_id])
                       else Inr ())))"

subsection \<open>Live migration\<close>

text \<open>
  The \<open>for\<close> loop over the volumes of the instance. It stops at the first exception; the
  updates made until then stay in the registry.
\<close>

fun update_volumes :: "db \<Rightarrow> volume list \<Rightarrow> exn option \<times> db" where
  "update_volumes d [] = (None, d)"
| "update_volumes d (vol # vols) =
     (case volume_update d (vol_id vol) [(''status'', ''migrating'')] of
        Inl e \<Rightarrow> (Some e, d)
      | Inr d' \<Rightarrow> update_volumes d' vols)"

text \<open>\<open>except exception.NotFound: pass\<close> around the loop; any other exception goes on.\<close>

definition except_NotFound :: "exn option \<times> db \<Rightarrow> exn option \<times> db" where
  "except_NotFound r =
     (case r of
        (None, d) \<Rightarrow> (None, d)
      | (Some e, d) \<Rightarrow> if is_NotFound e then (None, d) else (Some e, d))"

text \<open>The \<open>try\<close> statement under "Changing volume state".\<close>

definition change_volume_state :: "db \<Rightarrow> int \<Rightarrow> exn option \<times> db" where
  "change_volume_state d instance_id =
     except_NotFound
       (case volume_get_all_by_instance d instance_id of
          Inl e \<Rightarrow> (Some e, d)
        | Inr vols \<Rightarrow> update_volumes d vols)"

text \<open>
  \<open>schedule_live_migration\<close> returns what the method returns or raises, together with the
  registry as the method leaves it.

  In the handler of \<open>rpc.RemoteError\<close> the argument of \<open>logging.error\<close> is
  \<open>_(msg) % (dest, src, ec2_id, ret)\<close>; the name \<open>ret\<close> is bound nowhere in the module, so
  building the tuple raises \<open>NameError\<close> and the \<open>raise e\<close> after it is not reached.
  \<open>service[0]\<close> on an empty list raises \<open>IndexError\<close>.
\<close>

definition schedule_live_migration :: "env \<Rightarrow> db \<Rightarrow> int \<Rightarrow> string \<Rightarrow> (exn + string) \<times> db" where
  "schedule_live_migration e d instance_id dest =
     (case instance_get d instance_id of
        Inl ex \<Rightarrow> (Inl ex, d)
      | Inr instance_ref \<Rightarrow>
     let ec2_id = inst_hostname instance_ref in
     if RUNNING \<noteq> inst_state instance_ref \<or> ''running'' \<noteq> inst_state_description instance_ref
     then (Inl (Invalid ''Instance(%s) is not running'' [PyStr ec2_id]), d)
     else
     (case host_get_by_name d dest of
        Inl ex \<Rightarrow> (Inl ex, d)
      | Inr dhost_ref \<Rightarrow>
     let src = inst_host instance_ref in
     if dest = src
     then (Inl (Invalid ''%s is where %s is running now. choose other host.''
                  [PyStr dest, PyStr ec2_id]), d)
     else
     let svcs = service_get_all_by_topic d ''compute'' in
     if dest \<notin> set (map service_host svcs)
     then (Inl (Invalid ''%s must be compute node'' [PyStr dest]), d)
     else
     (case [s \<leftarrow> svcs. service_host s = dest] of
        [] \<Rightarrow> (Inl IndexError, d)
      | svc # _ \<Rightarrow>
     if \<not> service_is_up e svc
     then (Inl (Invalid ''%s is not alive(time synchronize problem?)'' [PyStr dest]), d)
     else
     let orighost = inst_launched_on instance_ref in
     (case host_get_by_name d orighost of
        Inl ex \<Rightarrow> (Inl ex, d)
      | Inr ohost_ref \<Rightarrow>
     let otype = host_hypervisor_type ohost_ref;
         dtype = host_hypervisor_type dhost_ref in
     if otype \<noteq> dtype
     then (Inl (Invalid ''Different hypervisor type(%s->%s)'' [PyStr otype, PyStr dtype]), d)
     else
     let oversion = host_hypervisor_version ohost_ref;
         dversion = host_hypervisor_version dhost_ref in
     if oversion > dversion
     then (Inl (Invalid ''Older hypervisor version(%s->%s)'' [PyInt oversion, PyInt dversion]), d)
     else
     (case host_cpu_info ohost_ref of
        None \<Rightarrow>
          (Inl (Invalid ''Unexpected err: not found cpu_info for %s on DB.hosts''
                  [PyStr orighost]), d)
      | Some cpuinfo \<Rightarrow>
     (case rpc_call e (queue_get_for (compute_topic e) dest) ''compare_cpu'' cpuinfo of
        Inl (RemoteFailure r) \<Rightarrow> (Inl (NameError ''ret''), d)
      | Inl (TransportFailure t) \<Rightarrow> (Inl (TransportError t), d)
      | Inr _ \<Rightarrow>
     (case has_enough_resource d instance_id dest of
        Inl ex \<Rightarrow> (Inl ex, d)
      | Inr _ \<Rightarrow>
     (case instance_set_state d instance_id PAUSED ''migrating'' of
        Inl ex \<Rightarrow> (Inl ex, d)
      | Inr d1 \<Rightarrow>
     (case change_volume_state d1 instance_id of
        (Some ex, d2) \<Rightarrow> (Inl ex, d2)
      | (None, d2) \<Rightarrow> (Inr src, d2))))))))))"

subsection \<open>The properties the specification states, as predicates\<close>

text \<open>
  The heartbeat as the specification words it: the later of \<open>updated_at\<close> and
  \<open>created_at\<close>, a record that was never updated counting from \<open>created_at\<close>.
\<close>

definition spec_latest_heartbeat :: "service \<Rightarrow> datetime" where
  "spec_latest_heartbeat s =
     (case service_updated_at s of
        None \<Rightarrow> service_created_at s
      | Some u \<Rightarrow> max u (service_created_at s))"

text \<open>
  The nine rules of the precondition chain, each read on its own from the registry, in
  the order of the specification. A rule gives the error it reports when it is violated
  and \<open>None\<close> when it holds or when the records it speaks about cannot be loaded (an
  earlier rule is violated then).
\<close>

definition rule_instance_exists :: "db \<Rightarrow> int \<Rightarrow> exn option" where
  "rule_instance_exists d instance_id =
     (case instance_get d instance_id of Inl ex \<Rightarrow> Some ex | Inr i \<Rightarrow> None)"

definition rule_running_state :: "db \<Rightarrow> int \<Rightarrow> exn option" where
  "rule_running_state d instance_id =
     (case instance_get d instance_id of
        Inl ex \<Rightarrow> None
      | Inr i \<Rightarrow>
          if inst_state i = RUNNING \<and> inst_state_description i = ''running'' then None
          else Some (Invalid ''Instance(%s) is not running'' [PyStr (inst_hostname i)]))"

definition rule_destination_exists :: "db \<Rightarrow> string \<Rightarrow> exn option" where
  "rule_destination_exists d dest =
     (case host_get_by_name d dest of Inl ex \<Rightarrow> Some ex | Inr dh \<Rightarrow> None)"

definition rule_destination_differs :: "db \<Rightarrow> int \<Rightarrow> string \<Rightarrow> exn option" where
  "rule_destination_differs d instance_id dest =
     (case instance_get d instance_id of
        Inl ex \<Rightarrow> None
      | Inr i \<Rightarrow>
          if dest \<noteq> inst_host i then None
          else Some (Invalid ''%s is where %s is running now. choose other host.''
                       [PyStr dest, PyStr (inst_hostname i)]))"

definition rule_destination_is_compute :: "db \<Rightarrow> string \<Rightarrow> exn option" where
  "rule_destination_is_compute d dest =
     (if dest \<in> set (map service_host (service_get_all_by_topic d ''compute'')) then None
      else Some (Invalid ''%s must be compute node'' [PyStr dest]))"

definition rule_destination_up :: "env \<Rightarrow> db \<Rightarrow> string \<Rightarrow> exn option" where
  "rule_destination_up e d dest =
     (case find (\<lambda>s. service_host s = dest) (service_get_all_by_topic d ''compute'') of
        None \<Rightarrow> None
      | Some svc \<Rightarrow>
          if service_is_up e svc then None
          else Some (Invalid ''%s is not alive(time synchronize problem?)'' [PyStr dest]))"

definition rule_hypervisor_type :: "db \<Rightarrow> int \<Rightarrow> string \<Rightarrow> exn option" where
  "rule_hypervisor_type d instance_id dest =
     (case instance_get d instance_id of
        Inl ex \<Rightarrow> None
      | Inr i \<Rightarrow>
          (case host_get_by_name d dest of
             Inl ex \<Rightarrow> None
           | Inr dh \<Rightarrow>
               (case host_get_by_name d (inst_launched_on i) of
                  Inl ex \<Rightarrow> Some ex
                | Inr oh \<Rightarrow>
                    if host_hypervisor_type oh = host_hypervisor_type dh then None
                    else Some (Invalid ''Different hypervisor type(%s->%s)''
                                 [PyStr (host_hypervisor_type oh),
                                  PyStr (host_hypervisor_type dh)]))))"

definition rule_hypervisor_version :: "db \<Rightarrow> int \<Rightarrow> string \<Rightarrow> exn option" where
  "rule_hypervisor_version d instance_id dest =
     (case instance_get d instance_id of
        Inl ex \<Rightarrow> None
      | Inr i \<Rightarrow>
          (case host_get_by_name d dest of
             Inl ex \<Rightarrow> None
           | Inr dh \<Rightarrow>
               (case host_get_by_name d (inst_launched_on i) of
                  Inl ex \<Rightarrow> None
                | Inr oh \<Rightarrow>
                    if host_hypervisor_version oh \<le> host_hypervisor_version dh then None
                    else Some (Invalid ''Older hypervisor version(%s->%s)''
                                 [PyInt (host_hypervisor_version oh),
                                  PyInt (host_hypervisor_version dh)]))))"

definition rule_cpu_info :: "db \<Rightarrow> int \<Rightarrow> exn option" where
  "rule_cpu_info d instance_id =
     (case instance_get d instance_id of
        Inl ex \<Rightarrow> None
      | Inr i \<Rightarrow>
          (case host_get_by_name d (inst_launched_on i) of
             Inl ex \<Rightarrow> None
           | Inr oh \<Rightarrow>
               (case host_cpu_info oh of
                  Some xml \<Rightarrow> None
                | None \<Rightarrow>
                    Some (Invalid ''Unexpected err: not found cpu_info for %s on DB.hosts''
                            [PyStr (inst_launched_on i)]))))"

definition spec_violations :: "env \<Rightarrow> db \<Rightarrow> int \<Rightarrow> string \<Rightarrow> exn option list" where
  "spec_violations e d instance_id dest =
     [rule_instance_exists d instance_id,
      rule_running_state d instance_id,
      rule_destination_exists d dest,
      rule_destination_differs d instance_id dest,
      rule_destination_is_compute d dest,
      rule_destination_up e d dest,
      rule_hypervisor_type d instance_id dest,
      rule_hypervisor_version d instance_id dest,
      rule_cpu_info d instance_id]"

text \<open>The error of the first violated rule of a list of rule outcomes.\<close>

fun first_violation :: "exn option list \<Rightarrow> exn option" where
  "first_violation [] = None"
| "first_violation (None # vs) = first_violation vs"
| "first_violation (Some ex # vs) = Some ex"

text \<open>
  "A distinct live compute destination": the destination is not the host of the
  instance, and the first compute service registered on it is up.
\<close>

definition destination_ok :: "env \<Rightarrow> db \<Rightarrow> inst \<Rightarrow> string \<Rightarrow> bool" where
  "destination_ok e d i dest \<longleftrightarrow>
     dest \<noteq> inst_host i \<and>
     (case [s \<leftarrow> service_get_all_by_topic d ''compute''. service_host s = dest] of
        [] \<Rightarrow> False
      | svc # _ \<Rightarrow> service_is_up e svc)"

text \<open>
  The request has passed the checks on the instance and on the destination, and the
  host on which the instance was launched is in the registry: the hypervisor checks are
  next.
\<close>

definition reaches_hypervisor_checks ::
  "env \<Rightarrow> db \<Rightarrow> int \<Rightarrow> string \<Rightarrow> inst \<Rightarrow> host \<Rightarrow> host \<Rightarrow> bool" where
  "reaches_hypervisor_checks e d instance_id dest i dh oh \<longleftrightarrow>
     instance_get d instance_id = Inr i \<and>
     inst_state i = RUNNING \<and> inst_state_description i = ''running'' \<and>
     host_get_by_name d dest = Inr dh \<and>
     destination_ok e d i dest \<and>
     host_get_by_name d (inst_launched_on i) = Inr oh"

text \<open>
  The request has passed the whole precondition chain: the remote \<open>compare_cpu\<close> call
  with the \<open>cpu_info\<close> of the origin is next.
\<close>

definition reaches_compare_cpu ::
  "env \<Rightarrow> db \<Rightarrow> int \<Rightarrow> string \<Rightarrow> inst \<Rightarrow> host \<Rightarrow> host \<Rightarrow> string \<Rightarrow> bool" where
  "reaches_compare_cpu e d instance_id dest i dh oh xml \<longleftrightarrow>
     reaches_hypervisor_checks e d instance_id dest i dh oh \<and>
     host_hypervisor_type oh = host_hypervisor_type dh \<and>
     host_hypervisor_version oh \<le> host_hypervisor_version dh \<and>
     host_cpu_info oh = Some xml"

text \<open>
  The errors the specification calls IncompatibleHypervisor: the two \<open>Invalid\<close> errors
  of the hypervisor checks.
\<close>

fun incompatible_hypervisor :: "exn \<Rightarrow> bool" where
  "incompatible_hypervisor (Invalid msg args) \<longleftrightarrow>
     msg = ''Different hypervisor type(%s->%s)'' \<or> msg = ''Older hypervisor version(%s->%s)''"
| "incompatible_hypervisor ex \<longleftrightarrow> False"

text \<open>
  What an exception carries, and whether the destination, the source and the instance
  identifier are among it.
\<close>

fun exn_args :: "exn \<Rightarrow> pyval list" where
  "exn_args (NotFound k key) = [key]"
| "exn_args (Invalid msg args) = args"
| "exn_args (NotEmpty msg args) = args"
| "exn_args (TransportError t) = [PyStr t]"
| "exn_args (NameError n) = [PyStr n]"
| "exn_args IndexError = []"

definition carries_identifiers :: "exn \<Rightarrow> string \<Rightarrow> string \<Rightarrow> string \<Rightarrow> bool" where
  "carries_identifiers ex dest src ec2_id \<longleftrightarrow>
     PyStr dest \<in> set (exn_args ex) \<and> PyStr src \<in> set (exn_args ex) \<and>
     PyStr ec2_id \<in> set (exn_args ex)"

text \<open>A volume has the status the commit gives it.\<close>

definition migrating :: "volume \<Rightarrow> volume" where
  "migrating v = v\<lparr>vol_status := ''migrating''\<rparr>"

subsection \<open>A small cluster\<close>

text \<open>
  Two hosts; the instance \<open>i-1\<close> runs on \<open>hostA\<close>, where it was launched, and has one
  volume; \<open>hostB\<close> runs a compute service that reported 30 seconds ago and hosts a
  second instance.
\<close>

definition example_env :: env where
  "example_env =
     \<lparr>utcnow = 100000000, service_down_time = 60, compute_topic = ''compute'',
      rpc_call = (\<lambda>queue method xml. Inr ())\<rparr>"

definition hostA :: host where
  "hostA =
     \<lparr>host_name = ''hostA'', host_vcpus = 8, host_memory_mb = 2048, host_local_gb = 100,
      host_hypervisor_type = ''kvm'', host_hypervisor_version = 1,
      host_cpu_info = Some ''<cpu/>''\<rparr>"

definition hostB :: host where
  "hostB =
     \<lparr>host_name = ''hostB'', host_vcpus = 8, host_memory_mb = 2048, host_local_gb = 100,
      host_hypervisor_type = ''kvm'', host_hypervisor_version = 2,
      host_cpu_info = None\<rparr>"

definition inst1 :: inst where
  "inst1 =
     \<lparr>inst_id = 1, inst_hostname = ''i-1'', inst_host = ''hostA'', inst_vcpus = 2,
      inst_memory_mb = 512, inst_local_gb = 10, inst_state = RUNNING,
      inst_state_description = ''running'', inst_launched_on = ''hostA''\<rparr>"

definition inst2 :: inst where
  "inst2 =
     \<lparr>inst_id = 2, inst_hostname = ''i-2'', inst_host = ''hostB'', inst_vcpus = 4,
      inst_memory_mb = 1024, inst_local_gb = 20, inst_state = RUNNING,
      inst_state_description = ''running'', inst_launched_on = ''hostB''\<rparr>"

definition serviceB :: service where
  "serviceB =
     \<lparr>service_host = ''hostB'', service_topic = ''compute'',
      service_updated_at = Some 70000000, service_created_at = 0\<rparr>"

definition vol10 :: volume where
  "vol10 = \<lparr>vol_id = 10, vol_instance_id = 1, vol_status = ''in-use''\<rparr>"

definition vol11 :: volume where
  "vol11 = \<lparr>vol_id = 11, vol_instance_id = 1, vol_status = ''in-use''\<rparr>"

definition example_db :: db where
  "example_db =
     \<lparr>services = [serviceB], hosts = [hostA, hostB], instances = [inst1, inst2],
      volumes = [vol10]\<rparr>"

text \<open>The same cluster with the instance \<open>i-1\<close> shut off.\<close>

definition example_db_shutoff :: db where
  "example_db_shutoff =
     example_db\<lparr>instances :=
       [inst1\<lparr>inst_state := SHUTOFF, inst_state_description := ''shutoff''\<rparr>, inst2]\<rparr>"

text \<open>The same cluster with another hypervisor on \<open>hostB\<close>.\<close>

definition example_db_xen :: db where
  "example_db_xen = example_db\<lparr>hosts := [hostA, hostB\<lparr>host_hypervisor_type := ''xen''\<rparr>]\<rparr>"

text \<open>
  The same requests when \<open>rpc.call\<close> raises \<open>rpc.RemoteError\<close>, and when it fails with a
  timeout of the transport.
\<close>

definition example_env_remote_error :: env where
  "example_env_remote_error =
     example_env\<lparr>rpc_call := (\<lambda>queue method xml. Inl (RemoteFailure ''InvalidCPUInfo''))\<rparr>"

definition example_env_timeout :: env where
  "example_env_timeout =
     example_env\<lparr>rpc_call := (\<lambda>queue method xml. Inl (TransportFailure ''timeout''))\<rparr>"

text \<open>A third volume of the instance \<open>i-1\<close>.\<close>

definition vol12 :: volume where
  "vol12 = \<lparr>vol_id = 12, vol_instance_id = 1, vol_status = ''in-use''\<rparr>"

text \<open>
  The cluster when the volume 11 of the instance has gone from the registry while the
  volumes 10 and 12 are there.
\<close>

definition example_db_two_volumes :: db where
  "example_db_two_volumes = example_db\<lparr>volumes := [vol10, vol12]\<rparr>"

text \<open>A service whose last update is stamped before its creation.\<close>

definition serviceC :: service where
  "serviceC =
     \<lparr>service_host = ''hostC'', service_topic = ''compute'',
      service_updated_at = Some 0, service_created_at = 50000000\<rparr>"

section \<open>Properties\<close>

lemmas example_defs = example_env_def example_db_def hostA_def hostB_def inst1_def inst2_def
  serviceB_def vol10_def vol11_def vol12_def example_db_shutoff_def example_db_xen_def
  example_env_remote_error_def example_env_timeout_def
  example_db_two_volumes_def

lemmas db_defs = instance_get_def host_get_by_name_def service_get_all_by_topic_def
  instance_get_all_by_host_def instance_set_state_def volume_get_all_by_instance_def
  volume_update_def volume_set_fields_def queue_get_for_def

subsection \<open>Liveness\<close>

text \<open>
  C5, as the code has it. \<open>service_is_up\<close> is true iff the time since the last heartbeat
  is strictly less than the timeout, where the last heartbeat is \<open>updated_at\<close> when it is
  set and \<open>created_at\<close> otherwise; at an age equal to the timeout the service is down.
  Whenever \<open>updated_at\<close> is unset or not earlier than \<open>created_at\<close>, that heartbeat is the
  later of the two timestamps.
\<close>

theorem service_is_up_heartbeat:
  "(service_is_up e s \<longleftrightarrow>
      utcnow e - (case service_updated_at s of Some u \<Rightarrow> u | None \<Rightarrow> service_created_at s)
        < timedelta_seconds (service_down_time e)) \<and>
   (utcnow e - last_heartbeat s = timedelta_seconds (service_down_time e)
      \<longrightarrow> \<not> service_is_up e s) \<and>
   ((case service_updated_at s of Some u \<Rightarrow> service_created_at s \<le> u | None \<Rightarrow> True) \<longrightarrow>
      (service_is_up e s \<longleftrightarrow>
         utcnow e - spec_latest_heartbeat s < timedelta_seconds (service_down_time e)))"
  by (simp add: service_is_up_def last_heartbeat_def spec_latest_heartbeat_def Let_def max_def
        split: option.splits)

text \<open>
  The service of \<open>hostB\<close> reported at second 70: at second 130 its age equals the timeout
  of 60 seconds and it is down, at second 100 it is up.
\<close>

theorem service_is_up_heartbeat_witness:
  "utcnow (example_env\<lparr>utcnow := 130000000\<rparr>) - last_heartbeat serviceB
     = timedelta_seconds (service_down_time (example_env\<lparr>utcnow := 130000000\<rparr>)) \<and>
   (case service_updated_at serviceB of
      Some u \<Rightarrow> service_created_at serviceB \<le> u
    | None \<Rightarrow> True) \<and>
   \<not> service_is_up (example_env\<lparr>utcnow := 130000000\<rparr>) serviceB \<and>
   service_is_up example_env serviceB \<and>
   utcnow example_env - spec_latest_heartbeat serviceB
     < timedelta_seconds (service_down_time example_env)"
  using service_is_up_heartbeat [of "example_env\<lparr>utcnow := 130000000\<rparr>" serviceB]
        service_is_up_heartbeat [of example_env serviceB]
  by (simp add: example_defs last_heartbeat_def timedelta_seconds_def spec_latest_heartbeat_def)

text \<open>
  C5 as the specification states it fails: \<open>serviceC\<close> was created at second 50 and
  carries an \<open>updated_at\<close> of second 0. At second 100 the later of the two timestamps is
  50 seconds old, less than the timeout of 60 seconds, but \<open>service_is_up\<close> measures from
  \<open>updated_at\<close> and answers that the service is down.
\<close>

theorem service_is_up_latest_counterexample:
  "\<not> (service_is_up example_env serviceC \<longleftrightarrow>
        utcnow example_env - spec_latest_heartbeat serviceC
          < timedelta_seconds (service_down_time example_env))"
  by (simp add: service_is_up_def last_heartbeat_def spec_latest_heartbeat_def example_env_def
        serviceC_def timedelta_seconds_def)

subsection \<open>The hosts that are up\<close>

lemma comprehension_map_filter:
  "[f x. x \<leftarrow> xs, P x] = map f (filter P xs)"
  by (induction xs) simp_all

text \<open>
  C9. \<open>hosts_up\<close> returns the hosts of exactly the services of the topic that
  \<open>service_is_up\<close> accepts, one entry for each such service and none else, in the order
  in which the registry lists the services.
\<close>

theorem hosts_up_exact:
  "hosts_up e d topic
     = map service_host (filter (service_is_up e) (service_get_all_by_topic d topic)) \<and>
   set (hosts_up e d topic)
     = {h. \<exists>s. s \<in> set (service_get_all_by_topic d topic) \<and> service_is_up e s \<and>
              service_host s = h} \<and>
   subseq (hosts_up e d topic) (map service_host (service_get_all_by_topic d topic))"
proof -
  have eq: "hosts_up e d topic
     = map service_host (filter (service_is_up e) (service_get_all_by_topic d topic))"
    unfolding hosts_up_def Let_def by (rule comprehension_map_filter)
  have "subseq (filter (service_is_up e) (service_get_all_by_topic d topic))
          (service_get_all_by_topic d topic)"
    by simp
  then have "subseq (map service_host (filter (service_is_up e) (service_get_all_by_topic d topic)))
          (map service_host (service_get_all_by_topic d topic))"
    by (rule subseq_map)
  with eq show ?thesis by auto
qed

subsection \<open>Capacity\<close>

lemma subtract_instances_sum:
  "subtract_instances (c, m, h) xs
     = (c - sum_list (map inst_vcpus xs), m - sum_list (map inst_memory_mb xs),
        h - sum_list (map inst_local_gb xs))"
  by (induction xs arbitrary: c m h) simp_all

text \<open>
  C4. For an instance and a destination host that the registry knows,
  \<open>has_enough_resource\<close> takes the vcpus, memory and disk of all instances placed on the
  destination off the totals of the host and succeeds iff what remains is strictly more
  than what the instance needs, in each of the three dimensions; otherwise it raises
  \<open>NotEmpty\<close> (the InsufficientResources of the specification) with the destination and
  the instance's hostname.
\<close>

theorem has_enough_resource_strict:
  assumes "instance_get d instance_id = Inr i"
    and "host_get_by_name d dest = Inr h"
  shows "has_enough_resource d instance_id dest =
    (if inst_vcpus i
          < host_vcpus h - sum_list (map inst_vcpus (instance_get_all_by_host d dest)) \<and>
        inst_memory_mb i
          < host_memory_mb h - sum_list (map inst_memory_mb (instance_get_all_by_host d dest)) \<and>
        inst_local_gb i
          < host_local_gb h - sum_list (map inst_local_gb (instance_get_all_by_host d dest))
     then Inr ()
     else Inl (NotEmpty ''%s doesnt have enough resource for %s''
                 [PyStr dest, PyStr (inst_hostname i)]))"
  using assms
  by (auto simp add: has_enough_resource_def Let_def subtract_instances_sum)

text \<open>
  \<open>hostB\<close> has 2048 MB and hosts an instance of 1024 MB: an instance of 512 MB fits, one
  of exactly the remaining 1024 MB is refused.
\<close>

theorem has_enough_resource_strict_witness:
  "instance_get example_db 1 = Inr inst1 \<and>
   host_get_by_name example_db ''hostB'' = Inr hostB \<and>
   has_enough_resource example_db 1 ''hostB'' = Inr () \<and>
   instance_get (example_db\<lparr>instances := [inst1\<lparr>inst_memory_mb := 1024\<rparr>, inst2]\<rparr>) 1
     = Inr (inst1\<lparr>inst_memory_mb := 1024\<rparr>) \<and>
   has_enough_resource (example_db\<lparr>instances := [inst1\<lparr>inst_memory_mb := 1024\<rparr>, inst2]\<rparr>)
       1 ''hostB''
     = Inl (NotEmpty ''%s doesnt have enough resource for %s'' [PyStr ''hostB'', PyStr ''i-1''])"
proof -
  have a: "instance_get example_db 1 = Inr inst1"
    by (simp add: instance_get_def example_defs)
  have b: "host_get_by_name example_db ''hostB'' = Inr hostB"
    by (simp add: host_get_by_name_def example_defs)
  have a': "instance_get (example_db\<lparr>instances := [inst1\<lparr>inst_memory_mb := 1024\<rparr>, inst2]\<rparr>) 1
      = Inr (inst1\<lparr>inst_memory_mb := 1024\<rparr>)"
    by (simp add: instance_get_def example_defs)
  have b': "host_get_by_name (example_db\<lparr>instances := [inst1\<lparr>inst_memory_mb := 1024\<rparr>, inst2]\<rparr>)
      ''hostB'' = Inr hostB"
    by (simp add: host_get_by_name_def example_defs)
  show ?thesis
    using has_enough_resource_strict [OF a b] has_enough_resource_strict [OF a' b'] a b a'
    by (simp add: instance_get_all_by_host_def example_defs)
qed

subsection \<open>What the registry operations raise\<close>

lemma instance_get_error:
  "instance_get d instance_id = Inl ex \<Longrightarrow> ex = NotFound InstanceEntity (PyInt instance_id)"
  by (auto simp: instance_get_def split: option.splits)

lemma host_get_by_name_error:
  "host_get_by_name d name = Inl ex \<Longrightarrow> ex = NotFound HostEntity (PyStr name)"
  by (auto simp: host_get_by_name_def split: option.splits)

lemma has_enough_resource_error:
  "has_enough_resource d instance_id dest = Inl ex \<Longrightarrow> ex \<noteq> IndexError"
  by (auto simp: has_enough_resource_def Let_def split: sum.splits prod.splits if_splits
        dest: instance_get_error host_get_by_name_error)

lemma update_volumes_error:
  "update_volumes d vols = (Some ex, d') \<Longrightarrow> is_NotFound ex"
  by (induction vols arbitrary: d) (auto simp: volume_update_def split: sum.splits if_splits)

lemma except_NotFound_update_volumes:
  "fst (except_NotFound (update_volumes d vols)) = None"
proof (cases "update_volumes d vols")
  case (Pair r d')
  then show ?thesis
    by (cases r) (auto simp: except_NotFound_def dest: update_volumes_error)
qed

lemma change_volume_state_no_error: "fst (change_volume_state d instance_id) = None"
  by (simp add: change_volume_state_def volume_get_all_by_instance_def
        except_NotFound_update_volumes)

lemma change_volume_state_eq:
  "change_volume_state d instance_id = (None, snd (change_volume_state d instance_id))"
  using change_volume_state_no_error [of d instance_id]
  by (cases "change_volume_state d instance_id") simp

lemma find_Some_mem: "find P xs = Some x \<Longrightarrow> x \<in> set xs \<and> P x"
  by (induction xs) (auto split: if_splits)

lemma instance_get_set_state:
  "instance_get d instance_id = Inr i \<Longrightarrow>
   instance_set_state d instance_id st description
     = Inr (d\<lparr>instances :=
               map (\<lambda>x. if inst_id x = instance_id
                        then x\<lparr>inst_state := st, inst_state_description := description\<rparr>
                        else x) (instances d)\<rparr>)"
  by (auto simp: instance_get_def instance_set_state_def split: option.splits
        dest!: find_Some_mem)

lemma filter_Cons_host:
  "[s \<leftarrow> svcs. service_host s = dest] = svc # rest \<Longrightarrow> dest \<in> service_host ` set svcs"
proof -
  assume a: "[s \<leftarrow> svcs. service_host s = dest] = svc # rest"
  have "svc \<in> set [s \<leftarrow> svcs. service_host s = dest]" unfolding a by simp
  then show ?thesis by auto
qed

subsection \<open>The precondition chain\<close>

text \<open>The method, one statement after the other.\<close>

lemma slm_no_instance:
  "instance_get d instance_id = Inl ex \<Longrightarrow>
   schedule_live_migration e d instance_id dest = (Inl ex, d)"
  by (simp add: schedule_live_migration_def)

lemma slm_not_running:
  "instance_get d instance_id = Inr i \<Longrightarrow>
   inst_state i \<noteq> RUNNING \<or> inst_state_description i \<noteq> ''running'' \<Longrightarrow>
   schedule_live_migration e d instance_id dest
     = (Inl (Invalid ''Instance(%s) is not running'' [PyStr (inst_hostname i)]), d)"
  by (auto simp add: schedule_live_migration_def Let_def)

lemma slm_no_dest:
  "instance_get d instance_id = Inr i \<Longrightarrow>
   inst_state i = RUNNING \<Longrightarrow> inst_state_description i = ''running'' \<Longrightarrow>
   host_get_by_name d dest = Inl ex \<Longrightarrow>
   schedule_live_migration e d instance_id dest = (Inl ex, d)"
  by (simp add: schedule_live_migration_def Let_def)

lemma slm_same_host:
  "instance_get d instance_id = Inr i \<Longrightarrow>
   inst_state i = RUNNING \<Longrightarrow> inst_state_description i = ''running'' \<Longrightarrow>
   host_get_by_name d dest = Inr dh \<Longrightarrow>
   dest = inst_host i \<Longrightarrow>
   schedule_live_migration e d instance_id dest
     = (Inl (Invalid ''%s is where %s is running now. choose other host.''
               [PyStr dest, PyStr (inst_hostname i)]), d)"
  by (simp add: schedule_live_migration_def Let_def)

lemma slm_not_compute:
  "instance_get d instance_id = Inr i \<Longrightarrow>
   inst_state i = RUNNING \<Longrightarrow> inst_state_description i = ''running'' \<Longrightarrow>
   host_get_by_name d dest = Inr dh \<Longrightarrow>
   dest \<noteq> inst_host i \<Longrightarrow>
   dest \<notin> service_host ` set (service_get_all_by_topic d ''compute'') \<Longrightarrow>
   schedule_live_migration e d instance_id dest
     = (Inl (Invalid ''%s must be compute node'' [PyStr dest]), d)"
  by (simp add: schedule_live_migration_def Let_def)

lemma slm_not_alive:
  "instance_get d instance_id = Inr i \<Longrightarrow>
   inst_state i = RUNNING \<Longrightarrow> inst_state_description i = ''running'' \<Longrightarrow>
   host_get_by_name d dest = Inr dh \<Longrightarrow>
   dest \<noteq> inst_host i \<Longrightarrow>
   [s \<leftarrow> service_get_all_by_topic d ''compute''. service_host s = dest] = svc # rest \<Longrightarrow>
   \<not> service_is_up e svc \<Longrightarrow>
   schedule_live_migration e d instance_id dest
     = (Inl (Invalid ''%s is not alive(time synchronize problem?)'' [PyStr dest]), d)"
  by (frule filter_Cons_host) (simp add: schedule_live_migration_def Let_def)


lemma change_volume_state_not_Some [simp]:
  "change_volume_state d instance_id \<noteq> (Some ex, d')"
  using change_volume_state_no_error [of d instance_id] by auto

lemma slm_from_hypervisor_checks:
  assumes "reaches_hypervisor_checks e d instance_id dest i dh oh"
  shows "schedule_live_migration e d instance_id dest =
    (if host_hypervisor_type oh \<noteq> host_hypervisor_type dh
     then (Inl (Invalid ''Different hypervisor type(%s->%s)''
                  [PyStr (host_hypervisor_type oh), PyStr (host_hypervisor_type dh)]), d)
     else if host_hypervisor_version oh > host_hypervisor_version dh
     then (Inl (Invalid ''Older hypervisor version(%s->%s)''
                  [PyInt (host_hypervisor_version oh), PyInt (host_hypervisor_version dh)]), d)
     else (case host_cpu_info oh of
        None \<Rightarrow>
          (Inl (Invalid ''Unexpected err: not found cpu_info for %s on DB.hosts''
                  [PyStr (inst_launched_on i)]), d)
      | Some cpuinfo \<Rightarrow>
     (case rpc_call e (queue_get_for (compute_topic e) dest) ''compare_cpu'' cpuinfo of
        Inl (RemoteFailure r) \<Rightarrow> (Inl (NameError ''ret''), d)
      | Inl (TransportFailure t) \<Rightarrow> (Inl (TransportError t), d)
      | Inr _ \<Rightarrow>
     (case has_enough_resource d instance_id dest of
        Inl ex \<Rightarrow> (Inl ex, d)
      | Inr _ \<Rightarrow>
          (Inr (inst_host i),
           snd (change_volume_state
                  (d\<lparr>instances :=
                       map (\<lambda>x. if inst_id x = instance_id
                                then x\<lparr>inst_state := PAUSED,
                                       inst_state_description := ''migrating''\<rparr>
                                else x) (instances d)\<rparr>)
                  instance_id))))))"
proof -
  from assms have ig: "instance_get d instance_id = Inr i"
    and st: "inst_state i = RUNNING" "inst_state_description i = ''running''"
    and dh: "host_get_by_name d dest = Inr dh"
    and ok: "destination_ok e d i dest"
    and oh: "host_get_by_name d (inst_launched_on i) = Inr oh"
    by (simp_all add: reaches_hypervisor_checks_def)
  from ok obtain svc rest where
    f: "[s \<leftarrow> service_get_all_by_topic d ''compute''. service_host s = dest] = svc # rest"
    and up: "service_is_up e svc" and ne: "dest \<noteq> inst_host i"
    by (auto simp: destination_ok_def split: list.splits)
  note mem = filter_Cons_host [OF f]
  show ?thesis
    using ig st dh oh f up ne mem
    by (simp add: schedule_live_migration_def Let_def instance_get_set_state
          split: option.split sum.split rpc_failure.split prod.split)
qed


lemma find_filter_hd:
  "find P xs = (case filter P xs of [] \<Rightarrow> None | x # _ \<Rightarrow> Some x)"
  by (induction xs) simp_all

lemmas rule_defs = rule_instance_exists_def rule_running_state_def rule_destination_exists_def
  rule_destination_differs_def rule_destination_is_compute_def rule_destination_up_def
  rule_hypervisor_type_def rule_hypervisor_version_def rule_cpu_info_def

lemma slm_cases [case_names Fail Pass]:
  obtains
    (Fail) ex where "schedule_live_migration e d instance_id dest = (Inl ex, d)"
      and "first_violation (spec_violations e d instance_id dest) = Some ex"
      and "ex \<noteq> IndexError"
  | (Pass) i dh oh xml where "reaches_compare_cpu e d instance_id dest i dh oh xml"
      and "first_violation (spec_violations e d instance_id dest) = None"
proof (cases "instance_get d instance_id")
  case (Inl ex)
  have "first_violation (spec_violations e d instance_id dest) = Some ex"
    using Inl by (simp add: spec_violations_def rule_defs)
  moreover have "ex \<noteq> IndexError" using Inl by (auto dest: instance_get_error)
  ultimately show thesis using slm_no_instance [OF Inl] Fail by blast
next
  case ig: (Inr i)
  show thesis
  proof (cases "inst_state i = RUNNING \<and> inst_state_description i = ''running''")
    case False
    then have "first_violation (spec_violations e d instance_id dest)
        = Some (Invalid ''Instance(%s) is not running'' [PyStr (inst_hostname i)])"
      using ig by (auto simp add: spec_violations_def rule_instance_exists_def
            rule_running_state_def)
    moreover from False have "inst_state i \<noteq> RUNNING \<or> inst_state_description i \<noteq> ''running''"
      by simp
    note slm_not_running [OF ig this]
    ultimately show thesis using Fail by blast
  next
    case True
    then have st: "inst_state i = RUNNING" "inst_state_description i = ''running''" by simp_all
    show thesis
    proof (cases "host_get_by_name d dest")
      case (Inl ex)
      have "first_violation (spec_violations e d instance_id dest) = Some ex"
        using ig st Inl by (simp add: spec_violations_def rule_defs)
      moreover have "ex \<noteq> IndexError" using Inl by (auto dest: host_get_by_name_error)
      ultimately show thesis using slm_no_dest [OF ig st Inl] Fail by blast
    next
      case dh: (Inr dh)
      show thesis
      proof (cases "dest = inst_host i")
        case True
        have "first_violation (spec_violations e d instance_id dest)
            = Some (Invalid ''%s is where %s is running now. choose other host.''
                      [PyStr dest, PyStr (inst_hostname i)])"
          using ig st dh True by (simp add: spec_violations_def rule_defs)
        then show thesis using slm_same_host [OF ig st dh True] Fail by blast
      next
        case ne: False
        show thesis
        proof (cases "[s \<leftarrow> service_get_all_by_topic d ''compute''. service_host s = dest]")
          case Nil
          then have nm: "dest \<notin> service_host ` set (service_get_all_by_topic d ''compute'')"
            by (auto simp: filter_empty_conv)
          have "first_violation (spec_violations e d instance_id dest)
              = Some (Invalid ''%s must be compute node'' [PyStr dest])"
            using ig st dh ne nm by (simp add: spec_violations_def rule_defs)
          then show thesis using slm_not_compute [OF ig st dh ne nm] Fail by blast
        next
          case f: (Cons svc rest)
          note mem = filter_Cons_host [OF f]
          show thesis
          proof (cases "service_is_up e svc")
            case False
            have "first_violation (spec_violations e d instance_id dest)
                = Some (Invalid ''%s is not alive(time synchronize problem?)'' [PyStr dest])"
              using ig st dh ne mem f False
              by (simp add: spec_violations_def rule_defs find_filter_hd)
            then show thesis using slm_not_alive [OF ig st dh ne f False] Fail by blast
          next
            case up: True
            have ok: "destination_ok e d i dest"
              using ne f up by (simp add: destination_ok_def)
            show thesis
            proof (cases "host_get_by_name d (inst_launched_on i)")
              case (Inl ex)
              have "first_violation (spec_violations e d instance_id dest) = Some ex"
                using ig st dh ne mem f up Inl
                by (simp add: spec_violations_def rule_defs find_filter_hd)
              moreover have "ex \<noteq> IndexError" using Inl by (auto dest: host_get_by_name_error)
              moreover have "schedule_live_migration e d instance_id dest = (Inl ex, d)"
                using ig st dh ne mem f up Inl
                by (simp add: schedule_live_migration_def Let_def)
              ultimately show thesis using Fail by blast
            next
              case oh: (Inr oh)
              have r: "reaches_hypervisor_checks e d instance_id dest i dh oh"
                using ig st dh ok oh by (simp add: reaches_hypervisor_checks_def)
              note tail = slm_from_hypervisor_checks [OF r]
              have pre: "first_violation (spec_violations e d instance_id dest)
                  = first_violation [rule_hypervisor_type d instance_id dest,
                      rule_hypervisor_version d instance_id dest, rule_cpu_info d instance_id]"
                using ig st dh ne mem f up
                by (simp add: spec_violations_def rule_instance_exists_def
                      rule_running_state_def rule_destination_exists_def
                      rule_destination_differs_def rule_destination_is_compute_def
                      rule_destination_up_def find_filter_hd)
              show thesis
              proof (cases "host_hypervisor_type oh = host_hypervisor_type dh")
                case False
                have "first_violation (spec_violations e d instance_id dest)
                    = Some (Invalid ''Different hypervisor type(%s->%s)''
                        [PyStr (host_hypervisor_type oh), PyStr (host_hypervisor_type dh)])"
                  unfolding pre using ig dh oh False by (simp add: rule_defs)
                then show thesis using tail False Fail by simp
              next
                case ty: True
                show thesis
                proof (cases "host_hypervisor_version oh \<le> host_hypervisor_version dh")
                  case False
                  have "first_violation (spec_violations e d instance_id dest)
                      = Some (Invalid ''Older hypervisor version(%s->%s)''
                          [PyInt (host_hypervisor_version oh),
                           PyInt (host_hypervisor_version dh)])"
                    unfolding pre using ig dh oh ty False by (simp add: rule_defs)
                  then show thesis using tail ty False Fail by simp
                next
                  case ver: True
                  show thesis
                  proof (cases "host_cpu_info oh")
                    case None
                    have "first_violation (spec_violations e d instance_id dest)
                        = Some (Invalid ''Unexpected err: not found cpu_info for %s on DB.hosts''
                            [PyStr (inst_launched_on i)])"
                      unfolding pre using ig dh oh ty ver None by (simp add: rule_defs)
                    then show thesis using tail ty ver None Fail by simp
                  next
                    case (Some xml)
                    have "first_violation (spec_violations e d instance_id dest) = None"
                      unfolding pre using ig dh oh ty ver Some by (simp add: rule_defs)
                    moreover have "reaches_compare_cpu e d instance_id dest i dh oh xml"
                      using r ty ver Some by (simp add: reaches_compare_cpu_def)
                    ultimately show thesis using Pass by blast
                  qed
                qed
              qed
            qed
          qed
        qed
      qed
    qed
  qed
qed


text \<open>
  C1. The method checks the rules in the order of the specification and stops at the
  first one that is violated: whatever rules an input violates, the method raises the
  error of the first violated rule of the list \<open>spec_violations\<close> (instance exists,
  running state, destination exists, destination differs from the source, destination is
  a compute node, destination is up, hypervisor type, hypervisor version, \<open>cpu_info\<close>),
  and the registry is as it was. Loading the host on which the instance was launched
  belongs to the rule on the hypervisor type.
\<close>

theorem precondition_chain_first_violation:
  assumes "first_violation (spec_violations e d instance_id dest) = Some ex"
  shows "schedule_live_migration e d instance_id dest = (Inl ex, d)"
proof (cases rule: slm_cases [of e d instance_id dest])
  case (Fail ex')
  with assms show ?thesis by simp
next
  case (Pass i dh oh xml)
  with assms show ?thesis by simp
qed

text \<open>
  A shut-off instance asked to migrate to the host it runs on, which runs no compute
  service: three rules are violated, and the error is that of the running state.
\<close>

theorem precondition_chain_first_violation_witness:
  "rule_running_state example_db_shutoff 1 \<noteq> None \<and>
   rule_destination_differs example_db_shutoff 1 ''hostA'' \<noteq> None \<and>
   rule_destination_is_compute example_db_shutoff ''hostA'' \<noteq> None \<and>
   first_violation (spec_violations example_env example_db_shutoff 1 ''hostA'')
     = Some (Invalid ''Instance(%s) is not running'' [PyStr ''i-1'']) \<and>
   schedule_live_migration example_env example_db_shutoff 1 ''hostA''
     = (Inl (Invalid ''Instance(%s) is not running'' [PyStr ''i-1'']), example_db_shutoff)"
proof -
  have h: "first_violation (spec_violations example_env example_db_shutoff 1 ''hostA'')
     = Some (Invalid ''Instance(%s) is not running'' [PyStr ''i-1''])"
    by (simp add: spec_violations_def rule_defs db_defs example_defs)
  show ?thesis
    using precondition_chain_first_violation [OF h] h
    by (simp add: rule_defs db_defs example_defs)
qed

lemma has_enough_resource_error_shape:
  "has_enough_resource d instance_id dest = Inl ex \<Longrightarrow>
   (\<exists>k key. ex = NotFound k key) \<or> (\<exists>msg args. ex = NotEmpty msg args)"
  by (auto simp: has_enough_resource_def Let_def split: sum.splits prod.splits if_splits
        dest: instance_get_error host_get_by_name_error)

subsection \<open>No mutation before the commit\<close>

text \<open>
  C6. Whenever the method raises, the registry is the one it started with: no instance
  state and no volume status has been written. (Every exception of the method comes from
  a precondition, from the \<open>compare_cpu\<close> call or from the capacity check; the commit
  itself swallows the only exception the volume operations raise.)
\<close>

theorem failure_leaves_registry:
  assumes "fst (schedule_live_migration e d instance_id dest) = Inl ex"
  shows "snd (schedule_live_migration e d instance_id dest) = d"
proof (cases rule: slm_cases [of e d instance_id dest])
  case (Fail ex')
  then show ?thesis by simp
next
  case (Pass i dh oh xml)
  then have r: "reaches_hypervisor_checks e d instance_id dest i dh oh"
    and c: "host_hypervisor_type oh = host_hypervisor_type dh"
      "host_hypervisor_version oh \<le> host_hypervisor_version dh" "host_cpu_info oh = Some xml"
    by (simp_all add: reaches_compare_cpu_def)
  show ?thesis
    using assms c unfolding slm_from_hypervisor_checks [OF r]
    by (auto split: sum.splits rpc_failure.splits)
qed

text \<open>The shut-off instance: the request is refused and the registry untouched.\<close>

theorem failure_leaves_registry_witness:
  "fst (schedule_live_migration example_env example_db_shutoff 1 ''hostB'')
     = Inl (Invalid ''Instance(%s) is not running'' [PyStr ''i-1'']) \<and>
   snd (schedule_live_migration example_env example_db_shutoff 1 ''hostB'') = example_db_shutoff"
proof -
  have h: "fst (schedule_live_migration example_env example_db_shutoff 1 ''hostB'')
     = Inl (Invalid ''Instance(%s) is not running'' [PyStr ''i-1''])"
    by (simp add: schedule_live_migration_def db_defs example_defs)
  show ?thesis using failure_leaves_registry [OF h] h by simp
qed

subsection \<open>The service record of the destination\<close>

text \<open>
  C10. When the destination is among the hosts of the compute services, the list of the
  services whose host is the destination is not empty; so \<open>service[0]\<close> never raises
  \<open>IndexError\<close> in the method.
\<close>

theorem dest_service_selection_nonempty:
  "(dest \<in> set (map service_host svcs) \<longrightarrow> [s \<leftarrow> svcs. service_host s = dest] \<noteq> []) \<and>
   fst (schedule_live_migration e d instance_id dest) \<noteq> Inl IndexError"
proof
  show "dest \<in> set (map service_host svcs) \<longrightarrow> [s \<leftarrow> svcs. service_host s = dest] \<noteq> []"
    by (auto simp: filter_empty_conv)
next
  show "fst (schedule_live_migration e d instance_id dest) \<noteq> Inl IndexError"
  proof (cases rule: slm_cases [of e d instance_id dest])
    case (Fail ex')
    then show ?thesis by simp
  next
    case (Pass i dh oh xml)
    then have r: "reaches_hypervisor_checks e d instance_id dest i dh oh"
      and c: "host_hypervisor_type oh = host_hypervisor_type dh"
        "host_hypervisor_version oh \<le> host_hypervisor_version dh" "host_cpu_info oh = Some xml"
      by (simp_all add: reaches_compare_cpu_def)
    show ?thesis
      using c unfolding slm_from_hypervisor_checks [OF r]
      by (auto split: sum.splits rpc_failure.splits dest: has_enough_resource_error)
  qed
qed

theorem dest_service_selection_nonempty_witness:
  "''hostB'' \<in> set (map service_host (service_get_all_by_topic example_db ''compute'')) \<and>
   [s \<leftarrow> service_get_all_by_topic example_db ''compute''. service_host s = ''hostB''] \<noteq> [] \<and>
   fst (schedule_live_migration example_env example_db 1 ''hostB'') \<noteq> Inl IndexError"
  using dest_service_selection_nonempty
    [of "''hostB''" "service_get_all_by_topic example_db ''compute''" example_env example_db 1]
  by (simp add: db_defs example_defs)

subsection \<open>Hypervisor compatibility\<close>

text \<open>
  C8. For a request that reaches the hypervisor checks, with origin host \<open>oh\<close> and
  destination host \<open>dh\<close>: a different hypervisor type is refused with the error
  "Different hypervisor type", an equal type with an older version at the destination is
  refused with the error "Older hypervisor version", and the method raises one of these
  two errors (the IncompatibleHypervisor of the specification) exactly when the types
  differ or the destination's version is lower than the origin's.
\<close>

theorem hypervisor_checks_exact:
  assumes "reaches_hypervisor_checks e d instance_id dest i dh oh"
  shows "(host_hypervisor_type oh \<noteq> host_hypervisor_type dh \<longrightarrow>
            schedule_live_migration e d instance_id dest
              = (Inl (Invalid ''Different hypervisor type(%s->%s)''
                   [PyStr (host_hypervisor_type oh), PyStr (host_hypervisor_type dh)]), d)) \<and>
         (host_hypervisor_type oh = host_hypervisor_type dh \<and>
          host_hypervisor_version dh < host_hypervisor_version oh \<longrightarrow>
            schedule_live_migration e d instance_id dest
              = (Inl (Invalid ''Older hypervisor version(%s->%s)''
                   [PyInt (host_hypervisor_version oh), PyInt (host_hypervisor_version dh)]), d)) \<and>
         ((\<exists>ex. fst (schedule_live_migration e d instance_id dest) = Inl ex \<and>
                incompatible_hypervisor ex)
            \<longleftrightarrow> \<not> (host_hypervisor_type oh = host_hypervisor_type dh \<and>
                   host_hypervisor_version oh \<le> host_hypervisor_version dh))"
  unfolding slm_from_hypervisor_checks [OF assms]
  by (auto split: option.splits sum.splits rpc_failure.splits
        dest!: has_enough_resource_error_shape)

text \<open>
  From \<open>hostA\<close> (kvm, version 1): a destination running xen is refused, the destination
  \<open>hostB\<close> (kvm, version 2) is accepted by the hypervisor checks.
\<close>

theorem hypervisor_checks_exact_witness:
  "reaches_hypervisor_checks example_env example_db_xen 1 ''hostB'' inst1
     (hostB\<lparr>host_hypervisor_type := ''xen''\<rparr>) hostA \<and>
   schedule_live_migration example_env example_db_xen 1 ''hostB''
     = (Inl (Invalid ''Different hypervisor type(%s->%s)'' [PyStr ''kvm'', PyStr ''xen'']),
        example_db_xen) \<and>
   reaches_hypervisor_checks example_env example_db 1 ''hostB'' inst1 hostB hostA \<and>
   \<not> (\<exists>ex. fst (schedule_live_migration example_env example_db 1 ''hostB'') = Inl ex \<and>
          incompatible_hypervisor ex)"
proof -
  have a: "reaches_hypervisor_checks example_env example_db_xen 1 ''hostB'' inst1
     (hostB\<lparr>host_hypervisor_type := ''xen''\<rparr>) hostA"
    by (simp add: reaches_hypervisor_checks_def destination_ok_def service_is_up_def
          last_heartbeat_def timedelta_seconds_def db_defs example_defs)
  have b: "reaches_hypervisor_checks example_env example_db 1 ''hostB'' inst1 hostB hostA"
    by (simp add: reaches_hypervisor_checks_def destination_ok_def service_is_up_def
          last_heartbeat_def timedelta_seconds_def db_defs example_defs)
  have c: "host_hypervisor_type hostA = host_hypervisor_type hostB"
      "host_hypervisor_version hostA \<le> host_hypervisor_version hostB"
      "host_hypervisor_type hostA \<noteq> host_hypervisor_type (hostB\<lparr>host_hypervisor_type := ''xen''\<rparr>)"
      "host_hypervisor_type hostA = ''kvm''"
    by (simp_all add: hostA_def hostB_def)
  show ?thesis
    using hypervisor_checks_exact [OF a] hypervisor_checks_exact [OF b] a b c
    by simp
qed

subsection \<open>The commit\<close>

lemma migrating_simps [simp]:
  "vol_id (migrating v) = vol_id v"
  "vol_instance_id (migrating v) = vol_instance_id v"
  "vol_status (migrating v) = ''migrating''"
  "migrating (migrating v) = migrating v"
  by (simp_all add: migrating_def)

lemma volume_update_present:
  "volume_id \<in> vol_id ` set (volumes d) \<Longrightarrow>
   volume_update d volume_id [(''status'', ''migrating'')]
     = Inr (d\<lparr>volumes := map (\<lambda>v. if vol_id v = volume_id then migrating v else v)
                               (volumes d)\<rparr>)"
  by (simp add: volume_update_def volume_set_fields_def migrating_def)

lemma volume_update_absent:
  "volume_id \<notin> vol_id ` set (volumes d) \<Longrightarrow>
   volume_update d volume_id vals = Inl (NotFound VolumeEntity (PyInt volume_id))"
  by (simp add: volume_update_def)

lemma vol_id_image_mark:
  "vol_id ` set (map (\<lambda>v. if P v then migrating v else v) vs) = vol_id ` set vs"
  by (induction vs) auto


lemma mark_twice:
  "map (\<lambda>v. if vol_id v \<in> S then migrating v else v)
     (map (\<lambda>v. if vol_id v = a then migrating v else v) vs)
   = map (\<lambda>v. if vol_id v \<in> insert a S then migrating v else v) vs"
  by (induction vs) auto



lemma update_volumes_first_absent:
  "k < length vols \<Longrightarrow>
   vol_id (vols ! k) \<notin> vol_id ` set (volumes d) \<Longrightarrow>
   vol_id ` set (take k vols) \<subseteq> vol_id ` set (volumes d) \<Longrightarrow>
   update_volumes d vols
     = (Some (NotFound VolumeEntity (PyInt (vol_id (vols ! k)))),
        d\<lparr>volumes := map (\<lambda>v. if vol_id v \<in> vol_id ` set (take k vols) then migrating v else v)
                          (volumes d)\<rparr>)"
proof (induction vols arbitrary: d k)
  case Nil
  then show ?case by simp
next
  case (Cons vol vols)
  show ?case
  proof (cases k)
    case 0
    with Cons.prems have "vol_id vol \<notin> vol_id ` set (volumes d)" by simp
    then show ?thesis using 0 by (simp add: volume_update_absent)
  next
    case (Suc k')
    let ?d1 = "d\<lparr>volumes := map (\<lambda>v. if vol_id v = vol_id vol then migrating v else v)
                                (volumes d)\<rparr>"
    from Cons.prems Suc have p: "vol_id vol \<in> vol_id ` set (volumes d)" by simp
    have ids: "vol_id ` set (volumes ?d1) = vol_id ` set (volumes d)"
      using vol_id_image_mark [of "\<lambda>v. vol_id v = vol_id vol" "volumes d"] by simp
    from Cons.prems Suc have a: "k' < length vols" by simp
    from Cons.prems Suc have b: "vol_id (vols ! k') \<notin> vol_id ` set (volumes ?d1)"
      unfolding ids by simp
    from Cons.prems Suc have c: "vol_id ` set (take k' vols) \<subseteq> vol_id ` set (volumes ?d1)"
      unfolding ids by simp
    have "update_volumes ?d1 vols
      = (Some (NotFound VolumeEntity (PyInt (vol_id (vols ! k')))),
         ?d1\<lparr>volumes := map (\<lambda>v. if vol_id v \<in> vol_id ` set (take k' vols)
                                   then migrating v else v) (volumes ?d1)\<rparr>)"
      using a b c by (rule Cons.IH)
    then show ?thesis
      using Suc by (simp add: volume_update_present [OF p] mark_twice)
  qed
qed



text \<open>
  C2, as the code has it. Take any list of volumes and the first position \<open>k\<close> at which
  \<open>volume_update\<close> reports not-found. The \<open>try\<close> statement swallows the not-found and
  the commit does not fail; the volumes before position \<open>k\<close> have the status
  "migrating"; the loop has ended at position \<open>k\<close>, so every other row of the volume
  table, among them the volumes listed after position \<open>k\<close>, is as it was.
\<close>

theorem commit_stops_at_first_not_found:
  assumes "k < length vols"
    and "vol_id (vols ! k) \<notin> vol_id ` set (volumes d)"
    and "vol_id ` set (take k vols) \<subseteq> vol_id ` set (volumes d)"
  shows "except_NotFound (update_volumes d vols)
     = (None,
        d\<lparr>volumes := map (\<lambda>v. if vol_id v \<in> vol_id ` set (take k vols) then migrating v else v)
                          (volumes d)\<rparr>)"
  unfolding update_volumes_first_absent [OF assms]
  by (simp add: except_NotFound_def)

text \<open>
  The volumes 10, 11 and 12 are listed and volume 11 has gone: volume 10 is set to
  "migrating", volume 12 stays as it is.
\<close>

theorem commit_stops_at_first_not_found_witness:
  "(1::nat) < length [vol10, vol11, vol12] \<and>
   vol_id ([vol10, vol11, vol12] ! 1) \<notin> vol_id ` set (volumes example_db_two_volumes) \<and>
   vol_id ` set (take 1 [vol10, vol11, vol12]) \<subseteq> vol_id ` set (volumes example_db_two_volumes) \<and>
   except_NotFound (update_volumes example_db_two_volumes [vol10, vol11, vol12])
     = (None, example_db\<lparr>volumes := [migrating vol10, vol12]\<rparr>)"
proof -
  have a: "(1::nat) < length [vol10, vol11, vol12]" by simp
  have b: "vol_id ([vol10, vol11, vol12] ! 1) \<notin> vol_id ` set (volumes example_db_two_volumes)"
    by (simp add: example_defs)
  have c: "vol_id ` set (take 1 [vol10, vol11, vol12])
      \<subseteq> vol_id ` set (volumes example_db_two_volumes)"
    by (simp add: example_defs)
  show ?thesis
    using commit_stops_at_first_not_found [OF a b c] a b c
    by (simp add: example_defs migrating_def)
qed

text \<open>
  C2 as the specification states it fails on that input: the update of volume 11 reports
  not-found, the commit does not fail, and volume 12, which is attached, listed after
  volume 11 and present in the registry, keeps the status "in-use": the iteration did
  not continue with it.
\<close>

theorem commit_continues_counterexample:
  "volume_update example_db_two_volumes (vol_id vol11) [(''status'', ''migrating'')]
     = Inl (NotFound VolumeEntity (PyInt 11)) \<and>
   except_NotFound (update_volumes example_db_two_volumes [vol10, vol11, vol12])
     = (None, example_db\<lparr>volumes := [migrating vol10, vol12]\<rparr>) \<and>
   vol_status vol12 \<noteq> ''migrating''"
  by (simp add: except_NotFound_def volume_update_def volume_set_fields_def migrating_def
        example_defs)

subsection \<open>The remote compare_cpu call\<close>

text \<open>
  C3, as the code has it. When the \<open>compare_cpu\<close> call fails, for whatever cause, the
  method raises and the registry is as it was. A failure of the transport is not caught:
  the exception of \<open>rpc.call\<close> leaves the method as it is, not wrapped in another error.
\<close>

theorem compare_cpu_failure_aborts:
  assumes "reaches_compare_cpu e d instance_id dest i dh oh xml"
    and "rpc_call e (queue_get_for (compute_topic e) dest) ''compare_cpu'' xml = Inl cause"
  shows "(\<exists>ex. fst (schedule_live_migration e d instance_id dest) = Inl ex) \<and>
         snd (schedule_live_migration e d instance_id dest) = d \<and>
         (\<forall>t. cause = TransportFailure t \<longrightarrow>
            fst (schedule_live_migration e d instance_id dest) = Inl (TransportError t))"
proof -
  from assms(1) have r: "reaches_hypervisor_checks e d instance_id dest i dh oh"
    and c: "host_hypervisor_type oh = host_hypervisor_type dh"
      "host_hypervisor_version oh \<le> host_hypervisor_version dh" "host_cpu_info oh = Some xml"
    by (simp_all add: reaches_compare_cpu_def)
  show ?thesis
    unfolding slm_from_hypervisor_checks [OF r] using c assms(2)
    by (cases cause) simp_all
qed

lemma example_reaches_compare_cpu:
  "reaches_compare_cpu (example_env\<lparr>rpc_call := f\<rparr>) example_db 1 ''hostB'' inst1 hostB hostA
     ''<cpu/>''"
  by (simp add: reaches_compare_cpu_def reaches_hypervisor_checks_def destination_ok_def
        service_is_up_def last_heartbeat_def timedelta_seconds_def db_defs example_defs)

text \<open>The request for \<open>hostB\<close> when the call times out.\<close>

theorem compare_cpu_failure_aborts_witness:
  "reaches_compare_cpu example_env_timeout example_db 1 ''hostB'' inst1 hostB hostA ''<cpu/>'' \<and>
   rpc_call example_env_timeout (queue_get_for (compute_topic example_env_timeout) ''hostB'')
       ''compare_cpu'' ''<cpu/>'' = Inl (TransportFailure ''timeout'') \<and>
   fst (schedule_live_migration example_env_timeout example_db 1 ''hostB'')
     = Inl (TransportError ''timeout'') \<and>
   snd (schedule_live_migration example_env_timeout example_db 1 ''hostB'') = example_db"
proof -
  have a: "reaches_compare_cpu example_env_timeout example_db 1 ''hostB'' inst1 hostB hostA
      ''<cpu/>''"
    unfolding example_env_timeout_def by (rule example_reaches_compare_cpu)
  have b: "rpc_call example_env_timeout
      (queue_get_for (compute_topic example_env_timeout) ''hostB'') ''compare_cpu'' ''<cpu/>''
      = Inl (TransportFailure ''timeout'')"
    by (simp add: example_env_timeout_def)
  show ?thesis
    using compare_cpu_failure_aborts [OF a b] a b by simp
qed

text \<open>
  C3 as the specification states it fails: after a timeout the method raises the
  transport's own exception, and after an \<open>rpc.RemoteError\<close> it raises the \<open>NameError\<close>
  of the handler; neither carries the destination \<open>hostB\<close>, the source \<open>hostA\<close> and the
  instance \<open>i-1\<close>.
\<close>

theorem compare_cpu_failure_wrapped_counterexample:
  "schedule_live_migration example_env_timeout example_db 1 ''hostB''
     = (Inl (TransportError ''timeout''), example_db) \<and>
   \<not> carries_identifiers (TransportError ''timeout'') ''hostB'' ''hostA'' ''i-1'' \<and>
   schedule_live_migration example_env_remote_error example_db 1 ''hostB''
     = (Inl (NameError ''ret''), example_db) \<and>
   \<not> carries_identifiers (NameError ''ret'') ''hostB'' ''hostA'' ''i-1''"
proof -
  have r: "\<And>f. reaches_hypervisor_checks (example_env\<lparr>rpc_call := f\<rparr>) example_db 1 ''hostB''
      inst1 hostB hostA"
    using example_reaches_compare_cpu by (simp add: reaches_compare_cpu_def)
  show ?thesis
    unfolding example_env_timeout_def example_env_remote_error_def
      slm_from_hypervisor_checks [OF r]
    by (simp add: carries_identifiers_def hostA_def hostB_def)
qed


subsection \<open>A migration that goes through\<close>








end
